theory Spec2Isabelle
  imports Main "HOL-Library.Sublist"
begin

section \<open>Values of the host language\<close>

text \<open>
  The editor component (\<^verbatim>\<open>src/components/OGLEditor.tsx\<close>) is written in TypeScript and runs
  in a browser. Its state is three text buffers, a run flag and two view flags; everything
  else it touches belongs to the page: the script elements of \<^verbatim>\<open>document.head\<close>, the canvas, the
  global \<^verbatim>\<open>window.cleanupShader\<close> and the console.

  A string is a \<^typ>\<open>string\<close>: one \<^typ>\<open>char\<close> stands for one UTF-16 code unit, and the model
  covers the code units below 256. The value \<^verbatim>\<open>undefined\<close> is \<^term>\<open>None\<close>; every other value the
  buffers can come to hold is a value that \<^verbatim>\<open>JSON.parse\<close> returns. A number is kept when it
  is an integer (a fraction or an exponent is not represented).
\<close>

datatype json =
    JNull
  | JBool bool
  | JNum int
  | JStr string
  | JArr "json list"
  | JObj "(string \<times> json) list"

type_synonym jsval = "json option"

text \<open>What \<^verbatim>\<open>a || b\<close> tests: \<^verbatim>\<open>undefined\<close>, \<^verbatim>\<open>null\<close>, \<^verbatim>\<open>false\<close>, \<^verbatim>\<open>0\<close> and the empty string are falsy.\<close>

fun truthy :: "jsval \<Rightarrow> bool" where
  "truthy None = False"
| "truthy (Some JNull) = False"
| "truthy (Some (JBool b)) = b"
| "truthy (Some (JNum n)) = (n \<noteq> 0)"
| "truthy (Some (JStr s)) = (s \<noteq> [])"
| "truthy (Some (JArr xs)) = True"
| "truthy (Some (JObj fs)) = True"

definition js_or :: "jsval \<Rightarrow> jsval \<Rightarrow> jsval" where
  "js_or a b = (if truthy a then a else b)"

datatype exn = TypeError | SyntaxError | InvalidStateError | Thrown

text \<open>
  \<^verbatim>\<open>obj[name]\<close> on an object literal whose own properties are \<open>obj\<close>: the own property,
  else a property inherited from \<^verbatim>\<open>Object.prototype\<close> (a function, or the prototype object
  itself for \<^verbatim>\<open>__proto__\<close>), else \<^verbatim>\<open>undefined\<close>.
\<close>

datatype 'a property = Own 'a | Inherited | Absent

definition Object_prototype :: "string list" where
  "Object_prototype =
     [''constructor'', ''__defineGetter__'', ''__defineSetter__'', ''hasOwnProperty'',
      ''__lookupGetter__'', ''__lookupSetter__'', ''isPrototypeOf'', ''propertyIsEnumerable'',
      ''toString'', ''valueOf'', ''__proto__'', ''toLocaleString'']"

definition lookup :: "(string \<times> 'a) list \<Rightarrow> string \<Rightarrow> 'a property" where
  "lookup obj name =
     (case map_of obj name of
        Some v \<Rightarrow> Own v
      | None \<Rightarrow> if name \<in> set Object_prototype then Inherited else Absent)"

text \<open>
  An object \<^term>\<open>JObj fs\<close> lists its members in the order of the document; a name that stands
  twice has its last value, as \<^verbatim>\<open>JSON.parse\<close> has it.
\<close>

definition member_value :: "(string \<times> json) list \<Rightarrow> string \<Rightarrow> jsval" where
  "member_value fs name = map_of (rev fs) name"

text \<open>
  \<^verbatim>\<open>data.name\<close> for a parsed document \<open>data\<close> and one of the three names the import reads
  (\<^verbatim>\<open>vertexShader\<close>, \<^verbatim>\<open>fragmentShader\<close>, \<^verbatim>\<open>jsCode\<close>), none of which is on a prototype: reading a
  property of \<^verbatim>\<open>null\<close> throws, an object gives its own property, and a boolean, a number, a
  string or an array gives \<^verbatim>\<open>undefined\<close>.
\<close>

fun field :: "json \<Rightarrow> string \<Rightarrow> exn + jsval" where
  "field JNull name = Inl TypeError"
| "field (JObj fs) name = Inr (member_value fs name)"
| "field (JBool b) name = Inr None"
| "field (JNum n) name = Inr None"
| "field (JStr s) name = Inr None"
| "field (JArr xs) name = Inr None"

section \<open>Replacing with a global regular expression\<close>

text \<open>
  \<^verbatim>\<open>GetSubstitution\<close> of ECMA-262, for a regular expression with no capture group: in the
  replacement text \<^verbatim>\<open>$$\<close> is a dollar sign, \<^verbatim>\<open>$&\<close> the matched text, \<^verbatim>\<open>$`\<close> the text before the
  match and \<^verbatim>\<open>$'\<close> the text after it; a dollar sign before anything else (a digit and
  \<^verbatim>\<open>$<\<close> included, there being no group) stands for itself.
\<close>

fun GetSubstitution :: "string \<Rightarrow> string \<Rightarrow> string \<Rightarrow> string \<Rightarrow> string" where
  "GetSubstitution matched pre post [] = []"
| "GetSubstitution matched pre post [c] = [c]"
| "GetSubstitution matched pre post (c # d # r) =
     (if c = CHR ''$'' \<and> d = CHR ''$'' then CHR ''$'' # GetSubstitution matched pre post r
      else if c = CHR ''$'' \<and> d = CHR ''&'' then matched @ GetSubstitution matched pre post r
      else if c = CHR ''$'' \<and> d = CHR 0x60 then pre @ GetSubstitution matched pre post r
      else if c = CHR ''$'' \<and> d = CHR 0x27 then post @ GetSubstitution matched pre post r
      else c # GetSubstitution matched pre post (d # r))"

text \<open>
  \<^verbatim>\<open>s.replace(/pat/g, repl)\<close> for a pattern that matches the literal text \<open>pat\<close>: the matches
  are found from left to right without overlap, and each is replaced by the expansion of
  \<open>repl\<close> at that match. \<open>pre\<close> is the part of \<open>s\<close> already passed.
\<close>

fun replace_from :: "string \<Rightarrow> string \<Rightarrow> string \<Rightarrow> string \<Rightarrow> string" where
  "replace_from pat repl pre [] = []"
| "replace_from pat repl pre (c # cs) =
     (if pat \<noteq> [] \<and> prefix pat (c # cs)
      then GetSubstitution pat pre (drop (length pat) (c # cs)) repl
             @ replace_from pat repl (pre @ pat) (drop (length pat) (c # cs))
      else c # replace_from pat repl (pre @ [c]) cs)"

definition replace_global :: "string \<Rightarrow> string \<Rightarrow> string \<Rightarrow> string" where
  "replace_global pat repl s = replace_from pat repl [] s"

text \<open>
  Lines 331 to 339 of the component, for a buffer that holds a string: backslashes are
  doubled, then a backslash is put before every backtick and every dollar sign.
\<close>

definition escapeShader :: "string \<Rightarrow> string" where
  "escapeShader shader =
     replace_global ''$'' [CHR 0x5C, CHR ''$'']
       (replace_global [CHR 0x60] [CHR 0x5C, CHR 0x60]
          (replace_global [CHR 0x5C] [CHR 0x5C, CHR 0x5C] shader))"

text \<open>
  Lines 331 to 343: \<^verbatim>\<open>.replace\<close> is a method of strings only, so a buffer that holds anything
  else makes the call throw a \<^verbatim>\<open>TypeError\<close>. The vertex source is escaped first, then the
  fragment source, then the two placeholders of the driver script are replaced in turn.
\<close>

definition codeWithShaders :: "jsval \<Rightarrow> jsval \<Rightarrow> jsval \<Rightarrow> exn + string" where
  "codeWithShaders vertexShader fragmentShader jsCode =
     (case vertexShader of
        Some (JStr v) \<Rightarrow>
          (case fragmentShader of
             Some (JStr f) \<Rightarrow>
               (case jsCode of
                  Some (JStr js) \<Rightarrow>
                    Inr (replace_global ''${fragmentShader}'' (escapeShader f)
                          (replace_global ''${vertexShader}'' (escapeShader v) js))
                | _ \<Rightarrow> Inl TypeError)
           | _ \<Rightarrow> Inl TypeError)
      | _ \<Rightarrow> Inl TypeError)"

text \<open>
  Reading an escaped text back: a backslash with the character after it stands for that
  character. This is how a template literal, in which the placeholders of the driver script
  stand, reads the three escapes that \<^term>\<open>escapeShader\<close> writes.
\<close>

fun unescape :: "string \<Rightarrow> string" where
  "unescape [] = []"
| "unescape [c] = [c]"
| "unescape (c # d # r) = (if c = CHR 0x5C then d # unescape r else c # unescape (d # r))"

text \<open>What the three replacements of \<^term>\<open>escapeShader\<close> do to one character.\<close>

definition escape_char :: "char \<Rightarrow> string" where
  "escape_char x =
     (if x = CHR 0x5C \<or> x = CHR 0x60 \<or> x = CHR ''$'' then [CHR 0x5C, x] else [x])"

section \<open>The built-in sources and the example catalog\<close>

text \<open>The three constants of \<^verbatim>\<open>src/lib/examples.ts\<close>.\<close>

definition defaultVertexShader :: string where
  "defaultVertexShader =
''attribute vec3 position;
attribute vec2 uv;

uniform mat4 modelViewMatrix;
uniform mat4 projectionMatrix;

varying vec2 vUv;

void main() {
  vUv = uv;
  gl_Position = projectionMatrix * modelViewMatrix * vec4(position, 1.0);
}''"

definition defaultFragmentShader :: string where
  "defaultFragmentShader =
''precision mediump float;

uniform float time;
uniform vec2 resolution;
uniform vec2 mouse;

varying vec2 vUv;

void main() {
  vec2 st = vUv;
  
  // Animated gradient
  vec3 color = vec3(0.0);
  color.r = sin(time + st.x * 3.14159) * 0.5 + 0.5;
  color.g = cos(time + st.y * 3.14159) * 0.5 + 0.5;
  color.b = sin(time * 2.0 + st.x * st.y * 10.0) * 0.5 + 0.5;
  
  // Mouse interaction
  vec2 mousePos = mouse / resolution;
  float dist = distance(st, mousePos);
  color *= 1.0 - dist * 2.0;
  
  gl_FragColor = vec4(color, 1.0);
}''"

definition defaultJavaScript :: string where
  "defaultJavaScript =
''// WebGL setup without OGL - Pure WebGL implementation
(function() {
  'use strict';
  
  // Stop any existing animation
  if (window.currentAnimationFrame) {
    cancelAnimationFrame(window.currentAnimationFrame);
  }
  
  const canvas = document.getElementById('glCanvas');
  if (!canvas) {
    console.error('Canvas element not found');
    return;
  }
  
  const gl = canvas.getContext('webgl') || canvas.getContext('experimental-webgl');

  if (!gl) {
    console.error('WebGL not supported');
    return;
  }

  // Set canvas size
  canvas.width = canvas.clientWidth;
  canvas.height = canvas.clientHeight;
  gl.viewport(0, 0, canvas.width, canvas.height);

  // Vertex data for a full-screen quad
  const vertices = new Float32Array([
    -1, -1,  0, 1,
     1, -1,  1, 1,
    -1,  1,  0, 0,
     1,  1,  1, 0
  ]);

  // Create and bind vertex buffer
  const vertexBuffer = gl.createBuffer();
  gl.bindBuffer(gl.ARRAY_BUFFER, vertexBuffer);
  gl.bufferData(gl.ARRAY_BUFFER, vertices, gl.STATIC_DRAW);

  // Shader compilation helper
  function createShader(gl, type, source) {
    const shader = gl.createShader(type);
    gl.shaderSource(shader, source);
    gl.compileShader(shader);
    
    if (!gl.getShaderParameter(shader, gl.COMPILE_STATUS)) {
      console.error('Shader compilation error:', gl.getShaderInfoLog(shader));
      gl.deleteShader(shader);
      return null;
    }
    
    return shader;
  }

  // Create shader program
  function createProgram(gl, vertexSource, fragmentSource) {
    const vertexShader = createShader(gl, gl.VERTEX_SHADER, vertexSource);
    const fragmentShader = createShader(gl, gl.FRAGMENT_SHADER, fragmentSource);
    
    if (!vertexShader || !fragmentShader) {
      return null;
    }
    
    const program = gl.createProgram();
    gl.attachShader(program, vertexShader);
    gl.attachShader(program, fragmentShader);
    gl.linkProgram(program);
    
    if (!gl.getProgramParameter(program, gl.LINK_STATUS)) {
      console.error('Program linking error:', gl.getProgramInfoLog(program));
      gl.deleteProgram(program);
      return null;
    }
    
    return program;
  }

  // Create the shader program
  const program = createProgram(gl, `${vertexShader}`, `${fragmentShader}`);

  if (!program) {
    console.error('Failed to create shader program');
    return;
  }

  // Get attribute and uniform locations
  const positionLocation = gl.getAttribLocation(program, 'position');
  const uvLocation = gl.getAttribLocation(program, 'uv');
  const timeLocation = gl.getUniformLocation(program, 'time');
  const resolutionLocation = gl.getUniformLocation(program, 'resolution');
  const mouseLocation = gl.getUniformLocation(program, 'mouse');
  const modelViewMatrixLocation = gl.getUniformLocation(program, 'modelViewMatrix');
  const projectionMatrixLocation = gl.getUniformLocation(program, 'projectionMatrix');

  // Mouse tracking
  let mouse = { x: 0, y: 0 };
  
  function handleMouseMove(e) {
    const rect = canvas.getBoundingClientRect();
    mouse.x = e.clientX - rect.left;
    mouse.y = canvas.height - (e.clientY - rect.top);
  }
  
  canvas.addEventListener('mousemove', handleMouseMove);

  // Create identity matrix
  function createIdentityMatrix() {
    return [
      1, 0, 0, 0,
      0, 1, 0, 0,
      0, 0, 1, 0,
      0, 0, 0, 1
    ];
  }

  // Render function
  function render(time) {
    // Resize canvas if needed
    if (canvas.width !== canvas.clientWidth || canvas.height !== canvas.clientHeight) {
      canvas.width = canvas.clientWidth;
      canvas.height = canvas.clientHeight;
      gl.viewport(0, 0, canvas.width, canvas.height);
    }
    
    // Clear canvas
    gl.clearColor(0, 0, 0, 1);
    gl.clear(gl.COLOR_BUFFER_BIT);
    
    // Use program
    gl.useProgram(program);
    
    // Set up attributes
    gl.bindBuffer(gl.ARRAY_BUFFER, vertexBuffer);
    
    if (positionLocation >= 0) {
      gl.enableVertexAttribArray(positionLocation);
      gl.vertexAttribPointer(positionLocation, 2, gl.FLOAT, false, 16, 0);
    }
    
    if (uvLocation >= 0) {
      gl.enableVertexAttribArray(uvLocation);
      gl.vertexAttribPointer(uvLocation, 2, gl.FLOAT, false, 16, 8);
    }
    
    // Set uniforms
    if (timeLocation) {
      gl.uniform1f(timeLocation, time * 0.001);
    }
    
    if (resolutionLocation) {
      gl.uniform2f(resolutionLocation, canvas.width, canvas.height);
    }
    
    if (mouseLocation) {
      gl.uniform2f(mouseLocation, mouse.x, mouse.y);
    }
    
    if (modelViewMatrixLocation) {
      gl.uniformMatrix4fv(modelViewMatrixLocation, false, createIdentityMatrix());
    }
    
    if (projectionMatrixLocation) {
      gl.uniformMatrix4fv(projectionMatrixLocation, false, createIdentityMatrix());
    }
    
    // Draw
    gl.drawArrays(gl.TRIANGLE_STRIP, 0, 4);
    
    window.currentAnimationFrame = requestAnimationFrame(render);
  }

  // Start rendering
  window.currentAnimationFrame = requestAnimationFrame(render);
  
  // Cleanup function for when shader stops
  window.cleanupShader = function() {
    if (window.currentAnimationFrame) {
      cancelAnimationFrame(window.currentAnimationFrame);
      window.currentAnimationFrame = null;
    }
    canvas.removeEventListener('mousemove', handleMouseMove);
  };
})();''"


text \<open>The sources of the four catalog entries.\<close>

definition basic_vertex :: string where
  "basic_vertex =
''attribute vec3 position;
attribute vec2 uv;

uniform mat4 modelViewMatrix;
uniform mat4 projectionMatrix;

varying vec2 vUv;

void main() {
  vUv = uv;
  gl_Position = projectionMatrix * modelViewMatrix * vec4(position, 1.0);
}''"

definition basic_fragment :: string where
  "basic_fragment =
''precision mediump float;

uniform float time;
uniform vec2 resolution;
uniform vec2 mouse;

varying vec2 vUv;

void main() {
  vec2 st = vUv;
  
  // Animated gradient
  vec3 color = vec3(0.0);
  color.r = sin(time + st.x * 3.14159) * 0.5 + 0.5;
  color.g = cos(time + st.y * 3.14159) * 0.5 + 0.5;
  color.b = sin(time * 2.0 + st.x * st.y * 10.0) * 0.5 + 0.5;
  
  // Mouse interaction
  vec2 mousePos = mouse / resolution;
  float dist = distance(st, mousePos);
  color *= 1.0 - dist * 2.0;
  
  gl_FragColor = vec4(color, 1.0);
}''"

definition raymarching_vertex :: string where
  "raymarching_vertex =
''attribute vec3 position;
attribute vec2 uv;

uniform mat4 modelViewMatrix;
uniform mat4 projectionMatrix;

varying vec2 vUv;

void main() {
  vUv = uv;
  gl_Position = projectionMatrix * modelViewMatrix * vec4(position, 1.0);
}''"

definition raymarching_fragment :: string where
  "raymarching_fragment =
''precision mediump float;

uniform float time;
uniform vec2 resolution;
uniform vec2 mouse;

varying vec2 vUv;

// Distance function for a sphere
float sdSphere(vec3 p, float r) {
  return length(p) - r;
}

// Distance function for a box
float sdBox(vec3 p, vec3 b) {
  vec3 q = abs(p) - b;
  return length(max(q, 0.0)) + min(max(q.x, max(q.y, q.z)), 0.0);
}

// Scene distance function
float map(vec3 p) {
  // Animate position
  p.y += sin(time + p.x) * 0.2;
  p.x += cos(time * 0.7 + p.z) * 0.3;
  
  // Create multiple spheres
  float sphere1 = sdSphere(p - vec3(0.0, 0.0, 0.0), 0.5);
  float sphere2 = sdSphere(p - vec3(sin(time) * 2.0, 0.0, cos(time) * 2.0), 0.3);
  float box = sdBox(p - vec3(0.0, sin(time * 1.3) * 0.5, 0.0), vec3(0.3));
  
  return min(min(sphere1, sphere2), box);
}

// Calculate normal
vec3 calcNormal(vec3 p) {
  const float h = 0.001;
  const vec2 k = vec2(1, -1);
  return normalize(k.xyy * map(p + k.xyy * h) +
                   k.yyx * map(p + k.yyx * h) +
                   k.yxy * map(p + k.yxy * h) +
                   k.xxx * map(p + k.xxx * h));
}

// Raymarching
float rayMarch(vec3 ro, vec3 rd) {
  float t = 0.0;
  for (int i = 0; i < 100; i++) {
    vec3 p = ro + rd * t;
    float d = map(p);
    if (d < 0.001) break;
    t += d;
    if (t > 100.0) break;
  }
  return t;
}

void main() {
  vec2 st = (vUv - 0.5) * 2.0;
  st.x *= resolution.x / resolution.y;
  
  // Camera
  vec3 ro = vec3(0.0, 0.0, 3.0);
  vec3 rd = normalize(vec3(st, -1.0));
  
  // Raymarching
  float t = rayMarch(ro, rd);
  
  vec3 color = vec3(0.0);
  
  if (t < 100.0) {
    vec3 p = ro + rd * t;
    vec3 n = calcNormal(p);
    
    // Lighting
    vec3 lightPos = vec3(2.0, 2.0, 4.0);
    vec3 lightDir = normalize(lightPos - p);
    float diff = max(dot(n, lightDir), 0.0);
    
    // Colors based on position and normal
    color = vec3(0.2 + 0.8 * diff);
    color *= vec3(0.5 + 0.5 * n.x, 0.5 + 0.5 * n.y, 0.5 + 0.5 * n.z);
  } else {
    // Background gradient
    color = vec3(0.1, 0.2, 0.4) + st.y * 0.1;
  }
  
  gl_FragColor = vec4(color, 1.0);
}''"

definition fractal_vertex :: string where
  "fractal_vertex =
''attribute vec3 position;
attribute vec2 uv;

uniform mat4 modelViewMatrix;
uniform mat4 projectionMatrix;

varying vec2 vUv;

void main() {
  vUv = uv;
  gl_Position = projectionMatrix * modelViewMatrix * vec4(position, 1.0);
}''"

definition fractal_fragment :: string where
  "fractal_fragment =
''precision mediump float;

uniform float time;
uniform vec2 resolution;
uniform vec2 mouse;

varying vec2 vUv;

vec2 complexMul(vec2 a, vec2 b) {
  return vec2(a.x * b.x - a.y * b.y, a.x * b.y + a.y * b.x);
}

float julia(vec2 z, vec2 c) {
  for (int i = 0; i < 100; i++) {
    if (length(z) > 2.0) {
      return float(i) / 100.0;
    }
    z = complexMul(z, z) + c;
  }
  return 0.0;
}

void main() {
  vec2 st = (vUv - 0.5) * 2.0;
  st.x *= resolution.x / resolution.y;
  
  // Zoom and pan
  st *= 1.5;
  st += vec2(sin(time * 0.1) * 0.3, cos(time * 0.13) * 0.3);
  
  // Julia set parameters
  vec2 c = vec2(
    sin(time * 0.2) * 0.7,
    cos(time * 0.3) * 0.7
  );
  
  float iter = julia(st, c);
  
  // Color based on iterations
  vec3 color = vec3(0.0);
  color.r = sin(iter * 3.14159 * 2.0) * 0.5 + 0.5;
  color.g = sin(iter * 3.14159 * 4.0 + 2.0) * 0.5 + 0.5;
  color.b = sin(iter * 3.14159 * 6.0 + 4.0) * 0.5 + 0.5;
  
  // Add some brightness variation
  color *= 0.5 + 0.5 * iter;
  
  gl_FragColor = vec4(color, 1.0);
}''"

definition noise_vertex :: string where
  "noise_vertex =
''attribute vec3 position;
attribute vec2 uv;

uniform mat4 modelViewMatrix;
uniform mat4 projectionMatrix;

varying vec2 vUv;

void main() {
  vUv = uv;
  gl_Position = projectionMatrix * modelViewMatrix * vec4(position, 1.0);
}''"

definition noise_fragment :: string where
  "noise_fragment =
''precision mediump float;

uniform float time;
uniform vec2 resolution;
uniform vec2 mouse;

varying vec2 vUv;

// Noise functions
float random(vec2 st) {
  return fract(sin(dot(st.xy, vec2(12.9898, 78.233))) * 43758.5453123);
}

float noise(vec2 st) {
  vec2 i = floor(st);
  vec2 f = fract(st);
  
  float a = random(i);
  float b = random(i + vec2(1.0, 0.0));
  float c = random(i + vec2(0.0, 1.0));
  float d = random(i + vec2(1.0, 1.0));
  
  vec2 u = f * f * (3.0 - 2.0 * f);
  
  return mix(a, b, u.x) + (c - a) * u.y * (1.0 - u.x) + (d - b) * u.x * u.y;
}

float fbm(vec2 st) {
  float value = 0.0;
  float amplitude = 0.5;
  float frequency = 0.0;
  
  for (int i = 0; i < 5; i++) {
    value += amplitude * noise(st);
    st *= 2.0;
    amplitude *= 0.5;
  }
  return value;
}

void main() {
  vec2 st = vUv;
  
  // Scale and move
  st *= 3.0;
  st += vec2(time * 0.1, time * 0.05);
  
  // Generate fractal noise
  float n = fbm(st);
  
  // Add some movement
  vec2 q = vec2(fbm(st + vec2(0.0, 0.0)),
                fbm(st + vec2(5.2, 1.3)));
  
  vec2 r = vec2(fbm(st + 4.0 * q + vec2(1.7, 9.2) + time * 0.15),
                fbm(st + 4.0 * q + vec2(8.3, 2.8) + time * 0.126));
  
  float f = fbm(st + r);
  
  // Color mapping
  vec3 color = vec3(0.0);
  color = mix(vec3(0.101961, 0.619608, 0.666667),
              vec3(0.666667, 0.666667, 0.498039),
              clamp((f * f) * 4.0, 0.0, 1.0));
              
  color = mix(color,
              vec3(0.0, 0.0, 0.164706),
              clamp(length(q), 0.0, 1.0));
              
  color = mix(color,
              vec3(0.666667, 1.0, 1.0),
              clamp(length(r.x), 0.0, 1.0));
  
  gl_FragColor = vec4(color, 1.0);
}''"


text \<open>The catalog of \<^verbatim>\<open>src/shaders/examples.ts\<close>: four entries, each a vertex and a fragment source.\<close>

record example =
  vertex :: string
  fragment :: string

definition shaderExamples :: "(string \<times> example) list" where
  "shaderExamples =
     [(''basic'', \<lparr>vertex = basic_vertex, fragment = basic_fragment\<rparr>),
      (''raymarching'', \<lparr>vertex = raymarching_vertex, fragment = raymarching_fragment\<rparr>),
      (''fractal'', \<lparr>vertex = fractal_vertex, fragment = fractal_fragment\<rparr>),
      (''noise'', \<lparr>vertex = noise_vertex, fragment = noise_fragment\<rparr>)]"

section \<open>The component and the page\<close>

text \<open>
  A script element of the page, the canvas as \<^verbatim>\<open>getContext\<close> sees it, and the cleanup hook
  that an injected script may leave in \<^verbatim>\<open>window.cleanupShader\<close> (all that the component can
  observe of a hook is whether calling it throws).
\<close>

record element =
  el_id :: string
  el_type :: string
  textContent :: string

datatype canvas = Placeholder | NoWebGL | WebGL

datatype hook = Hook (raises: bool)

datatype gl_call = ClearColor | ClearColorBuffer | ClearColorAndDepthBuffer

datatype level = Warn | Error

text \<open>
  The first six fields are the component's state (the \<^verbatim>\<open>useState\<close> cells), the next two
  its refs, the rest is the page: the children of \<^verbatim>\<open>document.head\<close> in document order
  (\<^term>\<open>None\<close> when the document has no head), the global cleanup hook, how often it was
  called, the calls made on the WebGL context, and the console.
\<close>

record state =
  vertexShader :: jsval
  fragmentShader :: jsval
  jsCode :: jsval
  isRunning :: bool
  activeTab :: string
  showExamples :: bool
  canvasRef :: "canvas option"
  animationFrameRef :: "nat option"
  document_head :: "element list option"
  cleanupShader :: "hook option"
  hook_calls :: nat
  gl_calls :: "gl_call list"
  console :: "(level \<times> string) list"

text \<open>
  A handler ends normally or by throwing; either way the effects it had on the state up to
  that point stay. \<^term>\<open>try_catch\<close> is \<^verbatim>\<open>try { ... } catch (e) { ... }\<close>, \<^term>\<open>seq\<close> is
  sequencing, which a throw cuts short.
\<close>

type_synonym outcome = "exn option \<times> state"

definition try_catch :: "outcome \<Rightarrow> (exn \<Rightarrow> state \<Rightarrow> outcome) \<Rightarrow> outcome" where
  "try_catch r handler = (case r of (None, s) \<Rightarrow> (None, s) | (Some e, s) \<Rightarrow> handler e s)"

definition seq :: "outcome \<Rightarrow> (state \<Rightarrow> outcome) \<Rightarrow> outcome" where
  "seq r k = (case r of (None, s) \<Rightarrow> k s | (Some e, s) \<Rightarrow> (Some e, s))"

definition console_warn :: "string \<Rightarrow> state \<Rightarrow> state" where
  "console_warn msg s = s\<lparr>console := console s @ [(Warn, msg)]\<rparr>"

definition console_error :: "string \<Rightarrow> state \<Rightarrow> state" where
  "console_error msg s = s\<lparr>console := console s @ [(Error, msg)]\<rparr>"

subsection \<open>The page's operations\<close>

text \<open>
  \<^verbatim>\<open>document.getElementById\<close> returns the first element with the id in document order.
  \<^verbatim>\<open>parent.removeChild(child)\<close> for a child of \<open>parent\<close> takes that child out and does not
  throw.
\<close>

definition getElementById :: "string \<Rightarrow> state \<Rightarrow> element option" where
  "getElementById i s =
     (case document_head s of None \<Rightarrow> None | Some els \<Rightarrow> find (\<lambda>e. el_id e = i) els)"

definition removeChild :: "element \<Rightarrow> state \<Rightarrow> outcome" where
  "removeChild e s = (None, s\<lparr>document_head := map_option (remove1 e) (document_head s)\<rparr>)"

text \<open>
  Lines 307 to 314 and 373 to 380: the element found is a child of the head, so its
  \<^verbatim>\<open>parentNode\<close> is not null.
\<close>

definition remove_shader_script :: "string \<Rightarrow> state \<Rightarrow> outcome" where
  "remove_shader_script msg s =
     (case getElementById ''shader-script'' s of
        None \<Rightarrow> (None, s)
      | Some existingScript \<Rightarrow>
          try_catch (removeChild existingScript s) (\<lambda>e s'. (None, console_warn msg s')))"

text \<open>
  \<^verbatim>\<open>canvas.getContext(id)\<close> throws on a canvas whose control went to an offscreen canvas,
  returns null where WebGL is not to be had, and a context otherwise (\<^term>\<open>True\<close>).
  \<^term>\<open>webgl_context\<close> is \<^verbatim>\<open>canvas.getContext('webgl') || canvas.getContext('experimental-webgl')\<close>.
\<close>

definition getContext :: "canvas \<Rightarrow> string \<Rightarrow> exn + bool" where
  "getContext c contextId =
     (case c of Placeholder \<Rightarrow> Inl InvalidStateError | NoWebGL \<Rightarrow> Inr False | WebGL \<Rightarrow> Inr True)"

definition webgl_context :: "canvas \<Rightarrow> exn + bool" where
  "webgl_context c =
     (case getContext c ''webgl'' of
        Inl e \<Rightarrow> Inl e
      | Inr gl \<Rightarrow> if gl then Inr True else getContext c ''experimental-webgl'')"

text \<open>Lines 317 to 323 (with the depth buffer) and 385 to 390 (without).\<close>

definition clear_surface :: "gl_call \<Rightarrow> state \<Rightarrow> outcome" where
  "clear_surface bits s =
     (case canvasRef s of
        None \<Rightarrow> (None, s)
      | Some c \<Rightarrow>
          (case webgl_context c of
             Inl e \<Rightarrow> (Some e, s)
           | Inr gl \<Rightarrow> (None, if gl then s\<lparr>gl_calls := gl_calls s @ [ClearColor, bits]\<rparr> else s)))"

text \<open>
  \<^verbatim>\<open>document.head.appendChild(script)\<close>: a \<^verbatim>\<open>TypeError\<close> when the document has no head;
  otherwise the script becomes the last child of the head.
\<close>

definition appendChild_head :: "element \<Rightarrow> state \<Rightarrow> outcome" where
  "appendChild_head e s =
     (case document_head s of
        None \<Rightarrow> (Some TypeError, s)
      | Some els \<Rightarrow> (None, s\<lparr>document_head := Some (els @ [e])\<rparr>))"

definition call_hook :: "hook \<Rightarrow> state \<Rightarrow> outcome" where
  "call_hook h s =
     (if raises h then (Some Thrown, s\<lparr>hook_calls := Suc (hook_calls s)\<rparr>)
      else (None, s\<lparr>hook_calls := Suc (hook_calls s)\<rparr>))"

subsection \<open>Stop and Run\<close>

text \<open>
  \<^verbatim>\<open>stopShader\<close>, lines 354 to 395. The ref \<^verbatim>\<open>animationFrameRef\<close> is tested for truthiness,
  so the handle 0 counts as no handle.
\<close>

definition stopShader :: "state \<Rightarrow> outcome" where
  "stopShader s0 =
     seq (None, s0\<lparr>isRunning := False\<rparr>) (\<lambda>s1.
     seq (case cleanupShader s1 of
            None \<Rightarrow> (None, s1)
          | Some h \<Rightarrow>
              try_catch (call_hook h s1)
                (\<lambda>e s. (None, console_warn ''Error during shader cleanup:'' s))) (\<lambda>s2.
     seq (case animationFrameRef s2 of
            None \<Rightarrow> (None, s2)
          | Some n \<Rightarrow> (None, if n = 0 then s2 else s2\<lparr>animationFrameRef := None\<rparr>)) (\<lambda>s3.
     seq (remove_shader_script ''Could not remove shader script:'' s3) (\<lambda>s4.
     (case canvasRef s4 of
        None \<Rightarrow> (None, s4)
      | Some c \<Rightarrow>
          try_catch (clear_surface ClearColorBuffer s4)
            (\<lambda>e s. (None, console_warn ''Could not clear WebGL context:'' s)))))))"

text \<open>
  The body of the \<^verbatim>\<open>try\<close> of \<^verbatim>\<open>runShader\<close>, lines 306 to 346. Appending the script element
  runs the script at once; \<open>execute\<close> says what a script with a given text does to
  \<^verbatim>\<open>window.cleanupShader\<close>. An error inside the script is reported to the page and is
  not thrown to \<^verbatim>\<open>appendChild\<close>.
\<close>

definition runShader_try :: "(string \<Rightarrow> hook option \<Rightarrow> hook option) \<Rightarrow> state \<Rightarrow> outcome" where
  "runShader_try execute s0 =
     seq (remove_shader_script ''Could not remove existing script:'' s0) (\<lambda>s1.
     seq (clear_surface ClearColorAndDepthBuffer s1) (\<lambda>s2.
     (case codeWithShaders (vertexShader s2) (fragmentShader s2) (jsCode s2) of
        Inl e \<Rightarrow> (Some e, s2)
      | Inr code \<Rightarrow>
          seq (appendChild_head
                 \<lparr>el_id = ''shader-script'', el_type = ''text/javascript'', textContent = code\<rparr> s2)
            (\<lambda>s3. (None, s3\<lparr>cleanupShader := execute code (cleanupShader s3)\<rparr>)))))"

text \<open>The state in which \<^verbatim>\<open>runShader\<close> enters its \<^verbatim>\<open>try\<close>, lines 298 to 303.\<close>

definition runShader_enter :: "state \<Rightarrow> outcome" where
  "runShader_enter s =
     seq (if isRunning s then stopShader s else (None, s)) (\<lambda>s1.
     (None, s1\<lparr>isRunning := True\<rparr>))"

text \<open>\<^verbatim>\<open>runShader\<close>, lines 295 to 352.\<close>

definition runShader :: "(string \<Rightarrow> hook option \<Rightarrow> hook option) \<Rightarrow> state \<Rightarrow> outcome" where
  "runShader execute s =
     (if canvasRef s = None then (None, s)
      else
        seq (runShader_enter s) (\<lambda>s1.
        try_catch (runShader_try execute s1)
          (\<lambda>error s2. (None, (console_error ''Error running shader:'' s2)\<lparr>isRunning := False\<rparr>))))"

text \<open>The effect cleanup at unmount, lines 266 to 277, and the state of a newly mounted component.\<close>

definition unmount :: "state \<Rightarrow> outcome" where
  "unmount s =
     (case cleanupShader s of
        None \<Rightarrow> (None, s)
      | Some h \<Rightarrow>
          try_catch (call_hook h s)
            (\<lambda>e s'. (None, console_warn ''Error during component unmount cleanup:'' s')))"

definition mount :: "string \<Rightarrow> string \<Rightarrow> string \<Rightarrow> canvas \<Rightarrow> state \<Rightarrow> state" where
  "mount initialVertexShader initialFragmentShader initialJavaScript c page =
     page\<lparr>vertexShader := Some (JStr initialVertexShader),
          fragmentShader := Some (JStr initialFragmentShader),
          jsCode := Some (JStr initialJavaScript),
          isRunning := False,
          activeTab := ''vertex'',
          showExamples := False,
          canvasRef := Some c,
          animationFrameRef := None\<rparr>"

subsection \<open>The buffers\<close>

text \<open>The editors' \<^verbatim>\<open>onChange\<close>, lines 546, 596 and 646: \<^verbatim>\<open>setVertexShader(value || "")\<close>.\<close>

definition onChange_vertex :: "string option \<Rightarrow> state \<Rightarrow> state" where
  "onChange_vertex v s = s\<lparr>vertexShader := js_or (map_option JStr v) (Some (JStr ''''))\<rparr>"

definition onChange_fragment :: "string option \<Rightarrow> state \<Rightarrow> state" where
  "onChange_fragment v s = s\<lparr>fragmentShader := js_or (map_option JStr v) (Some (JStr ''''))\<rparr>"

definition onChange_javascript :: "string option \<Rightarrow> state \<Rightarrow> state" where
  "onChange_javascript v s = s\<lparr>jsCode := js_or (map_option JStr v) (Some (JStr ''''))\<rparr>"

definition resetCode :: "state \<Rightarrow> state" where
  "resetCode s =
     s\<lparr>vertexShader := Some (JStr defaultVertexShader),
       fragmentShader := Some (JStr defaultFragmentShader),
       jsCode := Some (JStr defaultJavaScript)\<rparr>"

text \<open>
  The text of a project file, as far as \<^verbatim>\<open>JSON.parse\<close> tells texts apart: a text that is
  not JSON, or a JSON text with the value it denotes. \<^verbatim>\<open>JSON.stringify\<close> of an object
  writes the properties whose value is not \<^verbatim>\<open>undefined\<close>, in order.
\<close>

datatype file_text = Malformed | JSON json

definition JSON_parse :: "file_text \<Rightarrow> exn + json" where
  "JSON_parse t = (case t of Malformed \<Rightarrow> Inl SyntaxError | JSON v \<Rightarrow> Inr v)"

definition JSON_stringify :: "(string \<times> jsval) list \<Rightarrow> file_text" where
  "JSON_stringify obj =
     JSON (JObj (List.map_filter (\<lambda>(k, v). map_option (\<lambda>j. (k, j)) v) obj))"

text \<open>
  \<^verbatim>\<open>exportCode\<close>, lines 403 to 418: the file offered for download. \<open>timestamp\<close> is
  \<^verbatim>\<open>new Date().toISOString()\<close> and \<open>millis\<close> the digits of \<^verbatim>\<open>Date.now()\<close>. No state changes.
\<close>

record download =
  filename :: string
  content :: file_text

definition exportCode :: "string \<Rightarrow> string \<Rightarrow> state \<Rightarrow> download" where
  "exportCode timestamp millis s =
     \<lparr>filename = ''ogl-shader-'' @ millis @ ''.json'',
      content = JSON_stringify
        [(''vertexShader'', vertexShader s),
         (''fragmentShader'', fragmentShader s),
         (''jsCode'', jsCode s),
         (''timestamp'', Some (JStr timestamp))]\<rparr>"

text \<open>
  \<^verbatim>\<open>importCode\<close>, lines 420 to 442, from the moment the file dialog closes: no file chosen
  (\<^term>\<open>None\<close>), or the text of the chosen file, which \<^verbatim>\<open>reader.onload\<close> handles.
\<close>

definition importCode :: "file_text option \<Rightarrow> state \<Rightarrow> outcome" where
  "importCode file s =
     (case file of
        None \<Rightarrow> (None, s)
      | Some text \<Rightarrow>
          try_catch
            (case JSON_parse text of
               Inl e \<Rightarrow> (Some e, s)
             | Inr data \<Rightarrow>
                 (case field data ''vertexShader'' of
                    Inl e \<Rightarrow> (Some e, s)
                  | Inr v \<Rightarrow>
                      seq (None, s\<lparr>vertexShader := js_or v (Some (JStr defaultVertexShader))\<rparr>) (\<lambda>s1.
                      (case field data ''fragmentShader'' of
                         Inl e \<Rightarrow> (Some e, s1)
                       | Inr f \<Rightarrow>
                           seq (None, s1\<lparr>fragmentShader := js_or f (Some (JStr defaultFragmentShader))\<rparr>) (\<lambda>s2.
                           (case field data ''jsCode'' of
                              Inl e \<Rightarrow> (Some e, s2)
                            | Inr j \<Rightarrow>
                                (None, s2\<lparr>jsCode := js_or j (Some (JStr defaultJavaScript))\<rparr>)))))))
            (\<lambda>error s'. (None, console_error ''Error importing file:'' s')))"

text \<open>
  \<^verbatim>\<open>loadExample\<close>, lines 444 to 453. For a name that is no property at all,
  \<^verbatim>\<open>example\<close> is \<^verbatim>\<open>undefined\<close> and reading \<^verbatim>\<open>example.vertex\<close> throws before any setter is
  called. For a name inherited from \<^verbatim>\<open>Object.prototype\<close>, \<^verbatim>\<open>example\<close> is a function (or the
  prototype), whose \<^verbatim>\<open>vertex\<close> and \<^verbatim>\<open>fragment\<close> are \<^verbatim>\<open>undefined\<close>.
\<close>

definition loadExample :: "string \<Rightarrow> state \<Rightarrow> outcome" where
  "loadExample exampleName s =
     try_catch
       (case lookup shaderExamples exampleName of
          Absent \<Rightarrow> (Some TypeError, s)
        | Inherited \<Rightarrow>
            (None, s\<lparr>vertexShader := None, fragmentShader := None, showExamples := False\<rparr>)
        | Own example \<Rightarrow>
            (None, s\<lparr>vertexShader := Some (JStr (vertex example)),
                     fragmentShader := Some (JStr (fragment example)),
                     showExamples := False\<rparr>))
       (\<lambda>error s'. (None, console_error ''Error loading example:'' s'))"

subsection \<open>The states the component can reach\<close>

definition shader_scripts :: "state \<Rightarrow> element list" where
  "shader_scripts s =
     (case document_head s of
        None \<Rightarrow> []
      | Some els \<Rightarrow> filter (\<lambda>e. el_id e = ''shader-script'') els)"

text \<open>
  The component starts idle on a page that holds no injected script. From there any
  handler may run, with any file, name, text and script behaviour, and the component may be
  unmounted and mounted again on the page as it then is.
\<close>

definition initial :: "state \<Rightarrow> bool" where
  "initial s = (\<not> isRunning s \<and> shader_scripts s = [])"

inductive reachable :: "state \<Rightarrow> bool" where
  start: "initial s \<Longrightarrow> reachable s"
| run: "reachable s \<Longrightarrow> reachable (snd (runShader execute s))"
| stop: "reachable s \<Longrightarrow> reachable (snd (stopShader s))"
| reset: "reachable s \<Longrightarrow> reachable (resetCode s)"
| import: "reachable s \<Longrightarrow> reachable (snd (importCode file s))"
| load: "reachable s \<Longrightarrow> reachable (snd (loadExample exampleName s))"
| edit_vertex: "reachable s \<Longrightarrow> reachable (onChange_vertex v s)"
| edit_fragment: "reachable s \<Longrightarrow> reachable (onChange_fragment v s)"
| edit_javascript: "reachable s \<Longrightarrow> reachable (onChange_javascript v s)"
| tab: "reachable s \<Longrightarrow> reachable (s\<lparr>activeTab := t\<rparr>)"
| examples: "reachable s \<Longrightarrow> reachable (s\<lparr>showExamples := b\<rparr>)"
| remount: "reachable s \<Longrightarrow> reachable (mount v f j c (snd (unmount s)))"

text \<open>What a Start needs in order to go through: a mounted canvas whose \<^verbatim>\<open>getContext\<close> does
  not throw, a document head, and strings in the three buffers.\<close>

definition is_string :: "jsval \<Rightarrow> bool" where
  "is_string v = (case v of Some (JStr s) \<Rightarrow> True | _ \<Rightarrow> False)"

definition can_start :: "state \<Rightarrow> bool" where
  "can_start s =
     ((canvasRef s = Some NoWebGL \<or> canvasRef s = Some WebGL) \<and> document_head s \<noteq> None \<and>
      is_string (vertexShader s) \<and> is_string (fragmentShader s) \<and> is_string (jsCode s))"

text \<open>
  A page with an empty head and nothing else, and the component as it is first mounted on
  it with its default props.
\<close>

definition blank_page :: state where
  "blank_page =
     \<lparr>vertexShader = None, fragmentShader = None, jsCode = None, isRunning = False,
      activeTab = [], showExamples = False, canvasRef = None, animationFrameRef = None,
      document_head = Some [], cleanupShader = None, hook_calls = 0, gl_calls = [],
      console = []\<rparr>"

definition fresh :: state where
  "fresh = mount defaultVertexShader defaultFragmentShader defaultJavaScript WebGL blank_page"

section \<open>Signature help\<close>

text \<open>The table \<^verbatim>\<open>signatures\<close>, lines 130 to 168; a parameter is its label and its documentation.\<close>

record signature =
  label :: string
  documentation :: string
  parameters :: "(string \<times> string) list"

definition signatures :: "(string \<times> signature) list" where
  "signatures =
     [(''mix'',
       \<lparr>label = ''mix(x: T, y: T, a: float) -> T'',
        documentation = ''Linear interpolation between x and y based on a'',
        parameters =
          [(''x'', ''First value''), (''y'', ''Second value''),
           (''a'', ''Interpolation factor (0.0 to 1.0)'')]\<rparr>),
      (''smoothstep'',
       \<lparr>label = ''smoothstep(edge0: float, edge1: float, x: float) -> float'',
        documentation = ''Smooth Hermite interpolation'',
        parameters =
          [(''edge0'', ''Lower edge''), (''edge1'', ''Upper edge''),
           (''x'', ''Value to interpolate'')]\<rparr>),
      (''vec3'',
       \<lparr>label = ''vec3(x: float, y: float, z: float) -> vec3'',
        documentation = ''Create a 3-component vector'',
        parameters =
          [(''x'', ''X component''), (''y'', ''Y component''), (''z'', ''Z component'')]\<rparr>),
      (''vec4'',
       \<lparr>label = ''vec4(x: float, y: float, z: float, w: float) -> vec4'',
        documentation = ''Create a 4-component vector'',
        parameters =
          [(''x'', ''X component''), (''y'', ''Y component''), (''z'', ''Z component''),
           (''w'', ''W component'')]\<rparr>)]"

text \<open>The character classes \<^verbatim>\<open>\w\<close> and \<^verbatim>\<open>\s\<close> of a regular expression without flags.\<close>

definition is_word :: "char \<Rightarrow> bool" where
  "is_word c =
     (let n = (of_char c :: nat)
      in (48 \<le> n \<and> n \<le> 57) \<or> (65 \<le> n \<and> n \<le> 90) \<or> n = 95 \<or> (97 \<le> n \<and> n \<le> 122))"

definition is_space :: "char \<Rightarrow> bool" where
  "is_space c = (of_char c \<in> {9, 10, 11, 12, 13, 32, 160 :: nat})"

text \<open>
  The expression \<^verbatim>\<open>/(\w+)\s*\(\s*([^)]*)?$/\<close> matched at the start of \<open>s\<close>, giving its first
  group. The run of word characters and the run of spaces after it cannot stop early (what
  follows each is neither a space nor the parenthesis), and the rest matches up to the end
  exactly when it has no closing parenthesis.
\<close>

definition match_here :: "string \<Rightarrow> string option" where
  "match_here s =
     (let name = takeWhile is_word s
      in case dropWhile is_space (dropWhile is_word s) of
           [] \<Rightarrow> None
         | c # args \<Rightarrow>
             if name \<noteq> [] \<and> c = CHR ''('' \<and> CHR '')'' \<notin> set args then Some name else None)"

text \<open>\<^verbatim>\<open>beforeCursor.match(...)\<close>: the leftmost position at which the expression matches.\<close>

fun functionMatch :: "string \<Rightarrow> string option" where
  "functionMatch [] = None"
| "functionMatch (c # cs) =
     (case match_here (c # cs) of Some name \<Rightarrow> Some name | None \<Rightarrow> functionMatch cs)"

record signature_help =
  help_signatures :: "signature property list"
  activeSignature :: nat
  activeParameter :: nat

text \<open>
  \<^verbatim>\<open>provideSignatureHelp\<close>, lines 121 to 182, for the text of the line and the column of the
  position (columns count from 1). \<^verbatim>\<open>signatures[functionName]\<close> is truthy for an own entry and
  for a name inherited from \<^verbatim>\<open>Object.prototype\<close>.
\<close>

definition provideSignatureHelp :: "string \<Rightarrow> nat \<Rightarrow> signature_help option" where
  "provideSignatureHelp line column =
     (let beforeCursor = take (column - 1) line
      in case functionMatch beforeCursor of
           None \<Rightarrow> None
         | Some functionName \<Rightarrow>
             (case lookup signatures functionName of
                Absent \<Rightarrow> None
              | sig \<Rightarrow> Some \<lparr>help_signatures = [sig], activeSignature = 0, activeParameter = 0\<rparr>))"

section \<open>Escaping and substitution\<close>

lemma GetSubstitution_plain:
  "GetSubstitution m pre post [CHR 0x5C, CHR 0x5C] = [CHR 0x5C, CHR 0x5C]"
  "GetSubstitution m pre post [CHR 0x5C, CHR 0x60] = [CHR 0x5C, CHR 0x60]"
  "GetSubstitution m pre post [CHR 0x5C, CHR ''$''] = [CHR 0x5C, CHR ''$'']"
  by simp_all

lemma replace_from_char:
  assumes "\<And>pre post. GetSubstitution [c] pre post r = r"
  shows "replace_from [c] r pre s = concat (map (\<lambda>x. if x = c then r else [x]) s)"
  by (induction s arbitrary: pre) (auto simp: assms)

lemma escapeShader_chars: "escapeShader s = concat (map escape_char s)"
  by (induction s)
     (simp_all add: escapeShader_def replace_global_def replace_from_char GetSubstitution_plain
        escape_char_def)

lemma unescape_plain: "c \<noteq> CHR 0x5C \<Longrightarrow> unescape (c # rest) = c # unescape rest"
  by (cases rest) simp_all

text \<open>The escaping by itself loses nothing: an escaped source reads back as the source.\<close>

lemma unescape_escapeShader: "unescape (escapeShader s) = s"
  by (induction s) (simp_all add: escapeShader_chars escape_char_def unescape_plain)

text \<open>
  C2 fails on the code. The escaped source is handed to \<^verbatim>\<open>replace\<close> as the replacement
  text, where a dollar sign still starts a pattern. For the vertex source \<^verbatim>\<open>$&\<close> and a driver
  script that is just the placeholder, the script produced is a backslash and the
  placeholder itself, which reads back as the placeholder and not as the source. And since
  the second placeholder is replaced in the result of the first replacement, the vertex
  source \<^verbatim>\<open>${fragmentShader}\<close> comes out as the fragment source.
\<close>

theorem replacement_patterns_survive_escaping:
  "unescape (escapeShader ''$&'') = ''$&'' \<and>
   codeWithShaders (Some (JStr ''$&'')) (Some (JStr [])) (Some (JStr ''${vertexShader}''))
     = Inr ([CHR 0x5C] @ ''${vertexShader}'') \<and>
   unescape ([CHR 0x5C] @ ''${vertexShader}'') = ''${vertexShader}'' \<and>
   unescape (escapeShader ''${fragmentShader}'') = ''${fragmentShader}'' \<and>
   codeWithShaders (Some (JStr ''${fragmentShader}'')) (Some (JStr ''F'')) (Some (JStr ''${vertexShader}''))
     = Inr ([CHR 0x5C] @ ''F'') \<and>
   unescape ([CHR 0x5C] @ ''F'') = ''F''"
  by (simp add: unescape_escapeShader)
     (simp add: codeWithShaders_def escapeShader_def replace_global_def)

section \<open>Stop\<close>

lemmas step_defs = seq_def try_catch_def console_warn_def console_error_def removeChild_def
  remove_shader_script_def clear_surface_def appendChild_head_def call_hook_def getElementById_def

lemma stopShader_returns: "fst (stopShader s) = None"
  by (simp add: stopShader_def step_defs split: option.splits sum.splits prod.splits)

lemma stopShader_component:
  "isRunning (snd (stopShader s)) = False"
  "vertexShader (snd (stopShader s)) = vertexShader s"
  "fragmentShader (snd (stopShader s)) = fragmentShader s"
  "jsCode (snd (stopShader s)) = jsCode s"
  "activeTab (snd (stopShader s)) = activeTab s"
  "showExamples (snd (stopShader s)) = showExamples s"
  "canvasRef (snd (stopShader s)) = canvasRef s"
  by (simp_all add: stopShader_def step_defs split: option.splits sum.splits prod.splits)

text \<open>
  C4. Stop in the idle state does not throw, leaves the run flag false and leaves the three
  buffers (and the two view flags) as they were: the state of the component is unchanged.
\<close>

theorem stop_when_idle:
  assumes "\<not> isRunning s"
  shows "fst (stopShader s) = None \<and>
    \<not> isRunning (snd (stopShader s)) \<and>
    isRunning (snd (stopShader s)) = isRunning s \<and>
    vertexShader (snd (stopShader s)) = vertexShader s \<and>
    fragmentShader (snd (stopShader s)) = fragmentShader s \<and>
    jsCode (snd (stopShader s)) = jsCode s \<and>
    activeTab (snd (stopShader s)) = activeTab s \<and>
    showExamples (snd (stopShader s)) = showExamples s"
  using assms by (simp add: stopShader_returns stopShader_component)

theorem stop_when_idle_witness:
  "fst (stopShader fresh) = None \<and>
   \<not> isRunning (snd (stopShader fresh)) \<and>
   vertexShader (snd (stopShader fresh)) = Some (JStr defaultVertexShader) \<and>
   fragmentShader (snd (stopShader fresh)) = Some (JStr defaultFragmentShader) \<and>
   jsCode (snd (stopShader fresh)) = Some (JStr defaultJavaScript)"
proof -
  have idle: "\<not> isRunning fresh"
    by (simp add: fresh_def mount_def)
  have "vertexShader fresh = Some (JStr defaultVertexShader)"
    "fragmentShader fresh = Some (JStr defaultFragmentShader)"
    "jsCode fresh = Some (JStr defaultJavaScript)"
    by (simp_all add: fresh_def mount_def)
  with stop_when_idle [OF idle] show ?thesis
    by simp
qed

section \<open>The injected script\<close>

lemma filter_remove1_found:
  "find P els = Some e \<Longrightarrow> filter P (remove1 e els) = tl (filter P els)"
  by (induction els) (auto split: if_splits simp: find_Some_iff)

lemma find_None_filter: "find P els = None \<Longrightarrow> filter P els = []"
  by (induction els) (auto split: if_splits)

lemma remove_shader_script_returns: "fst (remove_shader_script msg s) = None"
  by (simp add: step_defs split: option.splits)

lemma remove_shader_script_scripts:
  "shader_scripts (snd (remove_shader_script msg s)) = tl (shader_scripts s)"
  by (auto simp: shader_scripts_def step_defs filter_remove1_found find_None_filter
      split: option.splits)

lemma remove_shader_script_keeps:
  "vertexShader (snd (remove_shader_script msg s)) = vertexShader s"
  "fragmentShader (snd (remove_shader_script msg s)) = fragmentShader s"
  "jsCode (snd (remove_shader_script msg s)) = jsCode s"
  "isRunning (snd (remove_shader_script msg s)) = isRunning s"
  "canvasRef (snd (remove_shader_script msg s)) = canvasRef s"
  "(document_head (snd (remove_shader_script msg s)) = None) = (document_head s = None)"
  by (simp_all add: step_defs split: option.splits)

lemma stopShader_scripts:
  "shader_scripts (snd (stopShader s)) = tl (shader_scripts s)"
proof -
  have "shader_scripts (snd (stopShader s)) =
      shader_scripts (snd (remove_shader_script ''Could not remove shader script:'' s))"
    by (simp add: stopShader_def shader_scripts_def step_defs
        split: option.splits sum.splits prod.splits)
  then show ?thesis
    by (simp add: remove_shader_script_scripts)
qed

lemma stopShader_head:
  "(document_head (snd (stopShader s)) = None) = (document_head s = None)"
  by (simp add: stopShader_def step_defs split: option.splits sum.splits prod.splits)

lemma runShader_enter_returns: "fst (runShader_enter s) = None"
  by (cases "stopShader s") (use stopShader_returns [of s] in \<open>simp add: runShader_enter_def seq_def\<close>)

lemma runShader_enter_state:
  "snd (runShader_enter s) = (if isRunning s then snd (stopShader s) else s)\<lparr>isRunning := True\<rparr>"
  by (cases "stopShader s") (use stopShader_returns [of s] in \<open>simp add: runShader_enter_def seq_def\<close>)

lemma can_start_enter: "can_start (snd (runShader_enter s)) = can_start s"
  by (simp add: runShader_enter_state can_start_def stopShader_component stopShader_head
      del: not_None_eq)

lemma canvasRef_enter: "canvasRef (snd (runShader_enter s)) = canvasRef s"
  by (simp add: runShader_enter_state stopShader_component)

lemma clear_surface_cases:
  "clear_surface bits s =
     (case canvasRef s of
        None \<Rightarrow> (None, s)
      | Some Placeholder \<Rightarrow> (Some InvalidStateError, s)
      | Some NoWebGL \<Rightarrow> (None, s)
      | Some WebGL \<Rightarrow> (None, s\<lparr>gl_calls := gl_calls s @ [ClearColor, bits]\<rparr>))"
  by (simp add: clear_surface_def webgl_context_def getContext_def split: option.splits canvas.splits)

lemma codeWithShaders_throws:
  "(\<exists>e. codeWithShaders v f j = Inl e) = (\<not> (is_string v \<and> is_string f \<and> is_string j))"
  by (auto simp: codeWithShaders_def is_string_def split: option.splits json.splits)

text \<open>With a canvas mounted, the body of the \<^verbatim>\<open>try\<close> throws exactly when a Start cannot go through.\<close>

lemma runShader_try_throws:
  "canvasRef s \<noteq> None \<Longrightarrow> (fst (runShader_try execute s) = None) = can_start s"
  using codeWithShaders_throws [of "vertexShader s" "fragmentShader s" "jsCode s"]
  by (cases "remove_shader_script ''Could not remove existing script:'' s")
     (use remove_shader_script_returns [of "''Could not remove existing script:''" s]
          remove_shader_script_keeps [of "''Could not remove existing script:''" s]
      in \<open>auto simp: runShader_try_def seq_def clear_surface_cases appendChild_head_def can_start_def
           split: option.splits canvas.splits sum.splits\<close>)

lemma runShader_try_keeps:
  "isRunning (snd (runShader_try execute s)) = isRunning s"
  "vertexShader (snd (runShader_try execute s)) = vertexShader s"
  "fragmentShader (snd (runShader_try execute s)) = fragmentShader s"
  "jsCode (snd (runShader_try execute s)) = jsCode s"
  "canvasRef (snd (runShader_try execute s)) = canvasRef s"
  "(document_head (snd (runShader_try execute s)) = None) = (document_head s = None)"
  by (cases "remove_shader_script ''Could not remove existing script:'' s";
      use remove_shader_script_returns [of "''Could not remove existing script:''" s]
          remove_shader_script_keeps [of "''Could not remove existing script:''" s]
      in \<open>auto simp: runShader_try_def seq_def clear_surface_cases appendChild_head_def
           split: option.splits canvas.splits sum.splits\<close>)+

lemma runShader_try_scripts:
  "length (shader_scripts (snd (runShader_try execute s))) =
     (if fst (runShader_try execute s) = None \<and> canvasRef s \<noteq> None
      then Suc (length (tl (shader_scripts s))) else length (tl (shader_scripts s)))
   \<or> canvasRef s = None"
  by (cases "remove_shader_script ''Could not remove existing script:'' s")
     (use remove_shader_script_returns [of "''Could not remove existing script:''" s]
          remove_shader_script_scripts [of "''Could not remove existing script:''" s]
          remove_shader_script_keeps [of "''Could not remove existing script:''" s]
      in \<open>auto simp: runShader_try_def seq_def clear_surface_cases appendChild_head_def
           shader_scripts_def split: option.splits canvas.splits sum.splits\<close>)

lemma runShader_unfold:
  "canvasRef s \<noteq> None \<Longrightarrow>
   runShader execute s =
     (if fst (runShader_try execute (snd (runShader_enter s))) = None
      then (None, snd (runShader_try execute (snd (runShader_enter s))))
      else (None, (console_error ''Error running shader:''
                     (snd (runShader_try execute (snd (runShader_enter s)))))\<lparr>isRunning := False\<rparr>))"
  by (cases "runShader_enter s"; cases "runShader_try execute (snd (runShader_enter s))")
     (use runShader_enter_returns [of s] in \<open>auto simp: runShader_def seq_def try_catch_def\<close>)

lemma runShader_returns: "fst (runShader execute s) = None"
  by (cases "canvasRef s = None") (simp_all add: runShader_unfold, simp add: runShader_def)

lemma runShader_failed:
  assumes "canvasRef s \<noteq> None"
    and "fst (runShader_try execute (snd (runShader_enter s))) \<noteq> None"
  shows "\<not> isRunning (snd (runShader execute s))"
    and "last (console (snd (runShader execute s))) = (Error, ''Error running shader:'')"
  using assms by (simp_all add: runShader_unfold console_error_def del: not_None_eq)

text \<open>
  C7. \<^verbatim>\<open>runShader\<close> never throws. If, with a canvas mounted, the body of its \<^verbatim>\<open>try\<close> throws
  (in the state in which the \<^verbatim>\<open>try\<close> is entered), the component ends idle and the last
  line of the console is the error that \<^verbatim>\<open>runShader\<close> logs. The body throws exactly when
  \<^verbatim>\<open>getContext\<close> throws, a buffer holds no string or the document has no head.
\<close>

theorem start_failure_is_contained:
  "fst (runShader execute s) = None \<and>
   (canvasRef s \<noteq> None \<and> fst (runShader_try execute (snd (runShader_enter s))) \<noteq> None \<longrightarrow>
      \<not> isRunning (snd (runShader execute s)) \<and>
      last (console (snd (runShader execute s))) = (Error, ''Error running shader:'')) \<and>
   (canvasRef s \<noteq> None \<longrightarrow>
      (fst (runShader_try execute (snd (runShader_enter s))) \<noteq> None) = (\<not> can_start s))"
proof -
  have returns: "fst (runShader execute s) = None"
    by (rule runShader_returns)
  have contained: "\<not> isRunning (snd (runShader execute s)) \<and>
      last (console (snd (runShader execute s))) = (Error, ''Error running shader:'')"
    if "canvasRef s \<noteq> None \<and> fst (runShader_try execute (snd (runShader_enter s))) \<noteq> None"
    using that by (simp add: runShader_failed del: not_None_eq)
  have exactly: "(fst (runShader_try execute (snd (runShader_enter s))) \<noteq> None) = (\<not> can_start s)"
    if "canvasRef s \<noteq> None"
  proof -
    from that have "canvasRef (snd (runShader_enter s)) \<noteq> None"
      by (simp add: canvasRef_enter)
    then show ?thesis
      by (simp add: runShader_try_throws can_start_enter del: not_None_eq)
  qed
  from returns contained exactly show ?thesis
    by blast
qed

theorem start_failure_is_contained_witness:
  "fst (runShader (\<lambda>code h. Some (Hook False)) (snd (loadExample ''toString'' fresh))) = None \<and>
   \<not> isRunning (snd (runShader (\<lambda>code h. Some (Hook False)) (snd (loadExample ''toString'' fresh)))) \<and>
   last (console (snd (runShader (\<lambda>code h. Some (Hook False)) (snd (loadExample ''toString'' fresh)))))
     = (Error, ''Error running shader:'')"
proof -
  let ?s = "snd (loadExample ''toString'' fresh)"
  have state: "?s = fresh\<lparr>vertexShader := None, fragmentShader := None, showExamples := False\<rparr>"
    by (simp add: loadExample_def lookup_def shaderExamples_def Object_prototype_def try_catch_def)
  have mounted: "canvasRef ?s \<noteq> None"
    unfolding state by (simp add: fresh_def mount_def)
  have "\<not> can_start ?s"
    unfolding state by (simp add: can_start_def is_string_def)
  with mounted have "fst (runShader_try (\<lambda>code h. Some (Hook False)) (snd (runShader_enter ?s))) \<noteq> None"
    by (simp add: runShader_try_throws canvasRef_enter can_start_enter del: not_None_eq)
  with mounted start_failure_is_contained [of "\<lambda>code h. Some (Hook False)" ?s] show ?thesis
    by blast
qed

lemma runShader_running:
  assumes "canvasRef s \<noteq> None"
  shows "isRunning (snd (runShader execute s)) = can_start s"
proof -
  let ?s1 = "snd (runShader_enter s)"
  from assms have "canvasRef ?s1 \<noteq> None"
    by (simp add: canvasRef_enter)
  then have "(fst (runShader_try execute ?s1) = None) = can_start s"
    by (simp add: runShader_try_throws can_start_enter del: not_None_eq)
  moreover have "isRunning ?s1"
    by (simp add: runShader_enter_state)
  ultimately show ?thesis
    using assms by (simp add: runShader_unfold runShader_try_keeps del: not_None_eq)
qed

lemma shader_scripts_console [simp]:
  "shader_scripts (console_error msg s) = shader_scripts s"
  "shader_scripts (console_warn msg s) = shader_scripts s"
  "shader_scripts (s\<lparr>isRunning := b\<rparr>) = shader_scripts s"
  by (simp_all add: shader_scripts_def console_error_def console_warn_def)

lemma runShader_enter_scripts:
  "length (shader_scripts (snd (runShader_enter s))) \<le> length (shader_scripts s)"
  by (simp add: runShader_enter_state stopShader_scripts)

lemma runShader_scripts_bound:
  assumes "length (shader_scripts s) \<le> 1"
  shows "length (shader_scripts (snd (runShader execute s))) \<le> 1"
proof (cases "canvasRef s = None")
  case True
  with assms show ?thesis by (simp add: runShader_def)
next
  case False
  let ?s1 = "snd (runShader_enter s)"
  from assms runShader_enter_scripts [of s] have "length (shader_scripts ?s1) \<le> 1"
    by simp
  then have empty: "tl (shader_scripts ?s1) = []"
    by (cases "shader_scripts ?s1") simp_all
  from False have "canvasRef ?s1 \<noteq> None"
    by (simp add: canvasRef_enter)
  with runShader_try_scripts [of execute ?s1] empty
  have "length (shader_scripts (snd (runShader_try execute ?s1))) \<le> 1"
    by (auto split: if_splits)
  with False show ?thesis
    by (simp add: runShader_unfold del: not_None_eq)
qed

lemma runShader_scripts_started:
  assumes "length (shader_scripts s) \<le> 1" and "can_start s"
  shows "length (shader_scripts (snd (runShader execute s))) = 1"
proof -
  let ?s1 = "snd (runShader_enter s)"
  from assms(2) have mounted: "canvasRef s \<noteq> None"
    by (auto simp: can_start_def)
  from assms(1) runShader_enter_scripts [of s] have "length (shader_scripts ?s1) \<le> 1"
    by simp
  then have empty: "tl (shader_scripts ?s1) = []"
    by (cases "shader_scripts ?s1") simp_all
  from mounted have m1: "canvasRef ?s1 \<noteq> None"
    by (simp add: canvasRef_enter)
  from assms(2) have "can_start ?s1"
    by (simp add: can_start_enter)
  with m1 have ok: "fst (runShader_try execute ?s1) = None"
    by (simp add: runShader_try_throws del: not_None_eq)
  with runShader_try_scripts [of execute ?s1] empty m1
  have "length (shader_scripts (snd (runShader_try execute ?s1))) = 1"
    by (auto split: if_splits)
  with mounted ok show ?thesis
    by (simp add: runShader_unfold del: not_None_eq)
qed

lemma runShader_can_start: "can_start (snd (runShader execute s)) = can_start s"
proof (cases "canvasRef s = None")
  case True
  then show ?thesis by (simp add: runShader_def)
next
  case False
  have "can_start (snd (runShader_try execute (snd (runShader_enter s)))) = can_start s"
    using can_start_enter [of s]
    by (simp add: can_start_def runShader_try_keeps del: not_None_eq)
  with False show ?thesis
    by (simp add: runShader_unfold can_start_def console_error_def del: not_None_eq)
qed

lemma scripts_kept:
  "shader_scripts (resetCode s) = shader_scripts s"
  "shader_scripts (snd (importCode file s)) = shader_scripts s"
  "shader_scripts (snd (loadExample exampleName s)) = shader_scripts s"
  "shader_scripts (onChange_vertex v s) = shader_scripts s"
  "shader_scripts (onChange_fragment v s) = shader_scripts s"
  "shader_scripts (onChange_javascript v s) = shader_scripts s"
  "shader_scripts (s\<lparr>activeTab := t\<rparr>) = shader_scripts s"
  "shader_scripts (s\<lparr>showExamples := b\<rparr>) = shader_scripts s"
  "shader_scripts (mount vs fs js c (snd (unmount s))) = shader_scripts s"
  by (auto simp: shader_scripts_def resetCode_def importCode_def loadExample_def
      onChange_vertex_def onChange_fragment_def onChange_javascript_def mount_def unmount_def
      JSON_parse_def step_defs
      split: option.splits sum.splits file_text.splits property.splits)

text \<open>The invariant, by induction over the handlers that lead to a state.\<close>

lemma reachable_scripts: "reachable s \<Longrightarrow> length (shader_scripts s) \<le> 1"
proof (induction rule: reachable.induct)
  case (start s)
  then show ?case by (simp add: initial_def)
next
  case (run s execute)
  from run.IH show ?case by (rule runShader_scripts_bound)
next
  case (stop s)
  from stop.IH show ?case by (simp add: stopShader_scripts)
qed (simp_all add: scripts_kept)

lemma reachable_fresh: "reachable fresh"
  by (rule reachable.start) (simp add: initial_def shader_scripts_def fresh_def mount_def blank_page_def)

lemma can_start_fresh: "can_start fresh"
  by (simp add: can_start_def is_string_def fresh_def mount_def blank_page_def)

lemma runShader_canvasRef: "canvasRef (snd (runShader execute s)) = canvasRef s"
proof (cases "canvasRef s = None")
  case True
  then show ?thesis by (simp add: runShader_def)
next
  case False
  have "canvasRef (snd (runShader_try execute (snd (runShader_enter s)))) = canvasRef s"
    by (simp add: runShader_try_keeps canvasRef_enter)
  with False show ?thesis
    by (simp add: runShader_unfold console_error_def del: not_None_eq)
qed

lemma runShader_scripts_failed:
  assumes "length (shader_scripts s) \<le> 1" and "canvasRef s \<noteq> None" and "\<not> can_start s"
  shows "shader_scripts (snd (runShader execute s)) = []"
proof -
  let ?s1 = "snd (runShader_enter s)"
  from assms(1) runShader_enter_scripts [of s] have "length (shader_scripts ?s1) \<le> 1"
    by simp
  then have empty: "tl (shader_scripts ?s1) = []"
    by (cases "shader_scripts ?s1") simp_all
  from assms(2) have m1: "canvasRef ?s1 \<noteq> None"
    by (simp add: canvasRef_enter)
  from assms(3) have "\<not> can_start ?s1"
    by (simp add: can_start_enter)
  with m1 have thrown: "fst (runShader_try execute ?s1) \<noteq> None"
    by (simp add: runShader_try_throws del: not_None_eq)
  with runShader_try_scripts [of execute ?s1] empty m1
  have "shader_scripts (snd (runShader_try execute ?s1)) = []"
    by (auto split: if_splits)
  with assms(2) thrown show ?thesis
    by (simp add: runShader_unfold del: not_None_eq)
qed

text \<open>
  C8, as the code has it. In every state the component can reach, the page holds at most
  one element with the id \<^verbatim>\<open>shader-script\<close>. Two Starts in a row, from such a state, leave
  at most one: exactly one, with the component running, where a Start can go through; and
  none, with the component idle, where a canvas is mounted and the Start throws.
\<close>

theorem at_most_one_injected_script:
  assumes "reachable s"
  shows "length (shader_scripts s) \<le> 1 \<and>
    length (shader_scripts (snd (runShader execute2 (snd (runShader execute1 s))))) \<le> 1 \<and>
    (can_start s \<longrightarrow>
       length (shader_scripts (snd (runShader execute2 (snd (runShader execute1 s))))) = 1 \<and>
       isRunning (snd (runShader execute2 (snd (runShader execute1 s))))) \<and>
    (canvasRef s \<noteq> None \<and> \<not> can_start s \<longrightarrow>
       shader_scripts (snd (runShader execute2 (snd (runShader execute1 s)))) = [] \<and>
       \<not> isRunning (snd (runShader execute2 (snd (runShader execute1 s)))))"
proof -
  let ?s1 = "snd (runShader execute1 s)"
  from assms have inv: "length (shader_scripts s) \<le> 1"
    by (rule reachable_scripts)
  then have inv1: "length (shader_scripts ?s1) \<le> 1"
    by (rule runShader_scripts_bound)
  then have inv2: "length (shader_scripts (snd (runShader execute2 ?s1))) \<le> 1"
    by (rule runShader_scripts_bound)
  have started: "length (shader_scripts (snd (runShader execute2 ?s1))) = 1 \<and>
      isRunning (snd (runShader execute2 ?s1))" if "can_start s"
  proof -
    from that have ok: "can_start ?s1"
      by (simp add: runShader_can_start)
    then have "canvasRef ?s1 \<noteq> None"
      by (auto simp: can_start_def)
    with ok inv1 show ?thesis
      by (simp add: runShader_scripts_started runShader_running del: not_None_eq)
  qed
  have failed: "shader_scripts (snd (runShader execute2 ?s1)) = [] \<and>
      \<not> isRunning (snd (runShader execute2 ?s1))" if "canvasRef s \<noteq> None \<and> \<not> can_start s"
  proof -
    from that have mounted: "canvasRef ?s1 \<noteq> None"
      by (simp add: runShader_canvasRef del: not_None_eq)
    from that have no: "\<not> can_start ?s1"
      by (simp add: runShader_can_start)
    from inv1 mounted no have "shader_scripts (snd (runShader execute2 ?s1)) = []"
      by (rule runShader_scripts_failed)
    moreover from mounted no have "\<not> isRunning (snd (runShader execute2 ?s1))"
      by (simp add: runShader_running del: not_None_eq)
    ultimately show ?thesis
      by simp
  qed
  from inv inv2 started failed show ?thesis
    by blast
qed

theorem at_most_one_injected_script_witness:
  "length (shader_scripts fresh) \<le> 1 \<and>
   length (shader_scripts (snd (runShader (\<lambda>code h. Some (Hook False))
     (snd (runShader (\<lambda>code h. Some (Hook False)) fresh))))) = 1 \<and>
   isRunning (snd (runShader (\<lambda>code h. Some (Hook False))
     (snd (runShader (\<lambda>code h. Some (Hook False)) fresh))))"
  using at_most_one_injected_script [OF reachable_fresh, of "\<lambda>code h. Some (Hook False)"
      "\<lambda>code h. Some (Hook False)"] can_start_fresh
  by blast

section \<open>Loading an example\<close>

text \<open>
  C5. Whatever the state, \<^verbatim>\<open>loadExample('basic')\<close> returns normally, puts the vertex and
  the fragment source of the catalog's entry \<^verbatim>\<open>basic\<close> into the vertex and the fragment
  buffer, and leaves the driver script as it was.
\<close>

theorem loadExample_basic:
  "map_of shaderExamples ''basic'' = Some \<lparr>vertex = basic_vertex, fragment = basic_fragment\<rparr> \<and>
   fst (loadExample ''basic'' s) = None \<and>
   vertexShader (snd (loadExample ''basic'' s)) = Some (JStr basic_vertex) \<and>
   fragmentShader (snd (loadExample ''basic'' s)) = Some (JStr basic_fragment) \<and>
   jsCode (snd (loadExample ''basic'' s)) = jsCode s"
  by (simp add: loadExample_def lookup_def shaderExamples_def try_catch_def)

text \<open>
  C9, as the code has it. For a name that is neither an entry of the catalog nor a property
  inherited from \<^verbatim>\<open>Object.prototype\<close>, \<^verbatim>\<open>loadExample\<close> catches the failure of the lookup: it
  returns normally, and the state is as before but for the error written to the console.
\<close>

theorem loadExample_unknown_name:
  "map_of shaderExamples name = None \<and> name \<notin> set Object_prototype \<longrightarrow>
     fst (loadExample name s) = None \<and>
     snd (loadExample name s) = s\<lparr>console := console s @ [(Error, ''Error loading example:'')]\<rparr>"
  by (simp add: loadExample_def lookup_def try_catch_def console_error_def)

theorem loadExample_unknown_name_witness:
  "fst (loadExample ''plasma'' fresh) = None \<and>
   snd (loadExample ''plasma'' fresh) =
     fresh\<lparr>console := console fresh @ [(Error, ''Error loading example:'')]\<rparr>"
proof -
  have "map_of shaderExamples ''plasma'' = None \<and> ''plasma'' \<notin> set Object_prototype"
    by (simp add: shaderExamples_def Object_prototype_def)
  with loadExample_unknown_name [of "''plasma''" fresh] show ?thesis
    by blast
qed

text \<open>
  C9 as the specification states it fails twice. The name \<^verbatim>\<open>plasma\<close> is not in the catalog,
  and the call returns normally: no failure reaches the caller. The name \<^verbatim>\<open>toString\<close> is
  not in the catalog either, and the call changes the vertex buffer.
\<close>

theorem loadExample_unknown_name_counterexample:
  "map_of shaderExamples ''plasma'' = None \<and> fst (loadExample ''plasma'' fresh) = None \<and>
   map_of shaderExamples ''toString'' = None \<and>
   vertexShader (snd (loadExample ''toString'' fresh)) \<noteq> vertexShader fresh"
  by (simp add: loadExample_def lookup_def try_catch_def shaderExamples_def Object_prototype_def
      fresh_def mount_def)

section \<open>Importing a project file\<close>

lemma default_nonempty:
  "defaultVertexShader \<noteq> []" "defaultFragmentShader \<noteq> []" "defaultJavaScript \<noteq> []"
  by (simp_all add: defaultVertexShader_def defaultFragmentShader_def defaultJavaScript_def)

lemma importCode_object:
  "importCode (Some (JSON (JObj fs))) s =
     (None, s\<lparr>vertexShader := js_or (member_value fs ''vertexShader'') (Some (JStr defaultVertexShader)),
              fragmentShader := js_or (member_value fs ''fragmentShader'') (Some (JStr defaultFragmentShader)),
              jsCode := js_or (member_value fs ''jsCode'') (Some (JStr defaultJavaScript))\<rparr>)"
  by (simp add: importCode_def JSON_parse_def try_catch_def seq_def)

lemma map_of_without:
  "map_of (filter (\<lambda>kv. fst kv \<noteq> k) fs) k' = (if k' = k then None else map_of fs k')"
  by (induction fs) auto

lemma member_value_without:
  "member_value (filter (\<lambda>kv. fst kv \<noteq> k) fs) k' = (if k' = k then None else member_value fs k')"
  by (simp add: member_value_def rev_filter map_of_without)

lemma js_or_empty: "js_or (Some (JStr [])) d = js_or None d"
  by (simp add: js_or_def)

lemma exportCode_content:
  "vertexShader s = Some (JStr v) \<Longrightarrow> fragmentShader s = Some (JStr f) \<Longrightarrow>
   jsCode s = Some (JStr j) \<Longrightarrow>
   content (exportCode timestamp millis s) =
     JSON (JObj [(''vertexShader'', JStr v), (''fragmentShader'', JStr f), (''jsCode'', JStr j),
                 (''timestamp'', JStr timestamp)])"
  by (simp add: exportCode_def JSON_stringify_def List.map_filter_simps)

text \<open>
  C1, as the code has it. For a project whose three buffers hold strings, export followed
  by import, whatever the time stamp and whatever the state of the importing component,
  gives each buffer that was not empty its content back and each buffer that was empty the
  built-in default. So a project with no empty buffer comes back as it was, field for field.
\<close>

theorem export_import_roundtrip:
  assumes "vertexShader s = Some (JStr v)" and "fragmentShader s = Some (JStr f)"
    and "jsCode s = Some (JStr j)"
  shows "fst (importCode (Some (content (exportCode timestamp millis s))) s0) = None \<and>
    vertexShader (snd (importCode (Some (content (exportCode timestamp millis s))) s0))
      = (if v = [] then Some (JStr defaultVertexShader) else vertexShader s) \<and>
    fragmentShader (snd (importCode (Some (content (exportCode timestamp millis s))) s0))
      = (if f = [] then Some (JStr defaultFragmentShader) else fragmentShader s) \<and>
    jsCode (snd (importCode (Some (content (exportCode timestamp millis s))) s0))
      = (if j = [] then Some (JStr defaultJavaScript) else jsCode s)"
proof -
  let ?members = "[(''vertexShader'', JStr v), (''fragmentShader'', JStr f), (''jsCode'', JStr j),
    (''timestamp'', JStr timestamp)]"
  have document: "content (exportCode timestamp millis s) = JSON (JObj ?members)"
    using assms by (rule exportCode_content)
  have members: "member_value ?members ''vertexShader'' = Some (JStr v)"
    "member_value ?members ''fragmentShader'' = Some (JStr f)"
    "member_value ?members ''jsCode'' = Some (JStr j)"
    by (simp_all add: member_value_def)
  show ?thesis
    unfolding document importCode_object members
    by (simp add: js_or_def assms)
qed

theorem export_import_roundtrip_witness:
  "vertexShader (snd (importCode (Some (content
      (exportCode ''2025-01-01T00:00:00.000Z'' ''1735689600000''
         (snd (loadExample ''noise'' fresh))))) fresh)) = Some (JStr noise_vertex) \<and>
   fragmentShader (snd (importCode (Some (content
      (exportCode ''2025-01-01T00:00:00.000Z'' ''1735689600000''
         (snd (loadExample ''noise'' fresh))))) fresh)) = Some (JStr noise_fragment) \<and>
   jsCode (snd (importCode (Some (content
      (exportCode ''2025-01-01T00:00:00.000Z'' ''1735689600000''
         (snd (loadExample ''noise'' fresh))))) fresh)) = Some (JStr defaultJavaScript)"
proof -
  let ?s = "snd (loadExample ''noise'' fresh)"
  have fields: "vertexShader ?s = Some (JStr noise_vertex)"
    "fragmentShader ?s = Some (JStr noise_fragment)" "jsCode ?s = Some (JStr defaultJavaScript)"
    by (simp_all add: loadExample_def lookup_def shaderExamples_def try_catch_def fresh_def mount_def)
  have nonempty: "noise_vertex \<noteq> []" "noise_fragment \<noteq> []" "defaultJavaScript \<noteq> []"
    by (simp_all add: noise_vertex_def noise_fragment_def defaultJavaScript_def)
  from export_import_roundtrip [OF fields] fields nonempty show ?thesis
    by simp
qed

text \<open>
  C1 as the specification states it fails where a buffer is empty: clearing the vertex
  editor gives the empty string, and the exported project comes back with the default
  vertex source in its place.
\<close>

theorem export_import_roundtrip_counterexample:
  "vertexShader (onChange_vertex (Some []) fresh) = Some (JStr []) \<and>
   vertexShader (snd (importCode (Some (content
      (exportCode ''2025-01-01T00:00:00.000Z'' ''1735689600000''
         (onChange_vertex (Some []) fresh)))) fresh))
     \<noteq> vertexShader (onChange_vertex (Some []) fresh)"
proof -
  let ?s = "onChange_vertex (Some []) fresh"
  have cleared: "vertexShader ?s = Some (JStr [])"
    by (simp add: onChange_vertex_def js_or_def)
  have others: "fragmentShader ?s = Some (JStr defaultFragmentShader)"
    "jsCode ?s = Some (JStr defaultJavaScript)"
    by (simp_all add: onChange_vertex_def fresh_def mount_def)
  have "vertexShader (snd (importCode (Some (content
      (exportCode ''2025-01-01T00:00:00.000Z'' ''1735689600000'' ?s))) fresh))
      = Some (JStr defaultVertexShader)"
    by (simp add: exportCode_content [OF cleared others] importCode_object member_value_def
        js_or_def)
  with cleared default_nonempty(1) show ?thesis
    by simp
qed

text \<open>
  C6. The document \<^verbatim>\<open>{"fragmentShader": "X"}\<close> is an object with the one property
  \<^verbatim>\<open>fragmentShader\<close>. Importing it, from any state, gives the fragment buffer \<^verbatim>\<open>X\<close> and the
  vertex and driver buffers the built-in defaults.
\<close>

theorem import_fragment_only:
  "fst (importCode (Some (JSON (JObj [(''fragmentShader'', JStr ''X'')]))) s) = None \<and>
   fragmentShader (snd (importCode (Some (JSON (JObj [(''fragmentShader'', JStr ''X'')]))) s))
     = Some (JStr ''X'') \<and>
   vertexShader (snd (importCode (Some (JSON (JObj [(''fragmentShader'', JStr ''X'')]))) s))
     = Some (JStr defaultVertexShader) \<and>
   jsCode (snd (importCode (Some (JSON (JObj [(''fragmentShader'', JStr ''X'')]))) s))
     = Some (JStr defaultJavaScript)"
  by (simp add: importCode_object member_value_def js_or_def)

text \<open>
  C10. In an imported object, a field that is the empty string counts as a field that is
  not there: its buffer gets the built-in default, and the whole import is the import of the
  document without that field.
\<close>

theorem import_empty_field_as_absent:
  "(member_value fs ''vertexShader'' = Some (JStr []) \<longrightarrow>
      vertexShader (snd (importCode (Some (JSON (JObj fs))) s)) = Some (JStr defaultVertexShader) \<and>
      importCode (Some (JSON (JObj fs))) s =
        importCode (Some (JSON (JObj (filter (\<lambda>kv. fst kv \<noteq> ''vertexShader'') fs)))) s) \<and>
   (member_value fs ''fragmentShader'' = Some (JStr []) \<longrightarrow>
      fragmentShader (snd (importCode (Some (JSON (JObj fs))) s)) = Some (JStr defaultFragmentShader) \<and>
      importCode (Some (JSON (JObj fs))) s =
        importCode (Some (JSON (JObj (filter (\<lambda>kv. fst kv \<noteq> ''fragmentShader'') fs)))) s) \<and>
   (member_value fs ''jsCode'' = Some (JStr []) \<longrightarrow>
      jsCode (snd (importCode (Some (JSON (JObj fs))) s)) = Some (JStr defaultJavaScript) \<and>
      importCode (Some (JSON (JObj fs))) s =
        importCode (Some (JSON (JObj (filter (\<lambda>kv. fst kv \<noteq> ''jsCode'') fs)))) s)"
  by (simp add: importCode_object member_value_without js_or_empty) (simp add: js_or_def)

theorem import_empty_field_as_absent_witness:
  "vertexShader (snd (importCode
      (Some (JSON (JObj [(''vertexShader'', JStr []), (''jsCode'', JStr ''run()'')]))) fresh))
     = Some (JStr defaultVertexShader) \<and>
   importCode (Some (JSON (JObj [(''vertexShader'', JStr []), (''jsCode'', JStr ''run()'')]))) fresh
     = importCode (Some (JSON (JObj [(''jsCode'', JStr ''run()'')]))) fresh"
proof -
  have present: "member_value [(''vertexShader'', JStr []), (''jsCode'', JStr ''run()'')]
      ''vertexShader'' = Some (JStr [])"
    by (simp add: member_value_def)
  have without: "filter (\<lambda>kv. fst kv \<noteq> ''vertexShader'')
      [(''vertexShader'', JStr []), (''jsCode'', JStr ''run()'')] = [(''jsCode'', JStr ''run()'')]"
    by simp
  from import_empty_field_as_absent
         [of "[(''vertexShader'', JStr []), (''jsCode'', JStr ''run()'')]" fresh] present
  show ?thesis
    unfolding without by blast
qed

section \<open>Signature help: the active parameter\<close>

lemma functionMatch_mix: "functionMatch ''mix(a, b,'' = Some ''mix''"
  by (simp add: match_here_def is_word_def is_space_def)

text \<open>
  C3, as the code has it. On the line \<^verbatim>\<open>mix(a, b,\<close> with the cursor behind the last comma
  (column 10) signature help returns the signature of \<^verbatim>\<open>mix\<close> with the active parameter 0;
  and whenever signature help returns a result, its active parameter is 0.
\<close>

theorem signature_help_first_parameter:
  "provideSignatureHelp ''mix(a, b,'' 10 =
     Some \<lparr>help_signatures =
             [Own \<lparr>label = ''mix(x: T, y: T, a: float) -> T'',
                   documentation = ''Linear interpolation between x and y based on a'',
                   parameters = [(''x'', ''First value''), (''y'', ''Second value''),
                                 (''a'', ''Interpolation factor (0.0 to 1.0)'')]\<rparr>],
           activeSignature = 0, activeParameter = 0\<rparr> \<and>
   (\<forall>line column r. provideSignatureHelp line column = Some r \<longrightarrow> activeParameter r = 0)"
proof (intro conjI allI impI)
  show "provideSignatureHelp ''mix(a, b,'' 10 =
     Some \<lparr>help_signatures =
             [Own \<lparr>label = ''mix(x: T, y: T, a: float) -> T'',
                   documentation = ''Linear interpolation between x and y based on a'',
                   parameters = [(''x'', ''First value''), (''y'', ''Second value''),
                                 (''a'', ''Interpolation factor (0.0 to 1.0)'')]\<rparr>],
           activeSignature = 0, activeParameter = 0\<rparr>"
    by (simp add: provideSignatureHelp_def functionMatch_mix lookup_def signatures_def
        del: functionMatch.simps)
next
  fix line column r
  assume "provideSignatureHelp line column = Some r"
  then show "activeParameter r = 0"
    by (auto simp: provideSignatureHelp_def Let_def split: option.splits property.splits)
qed

theorem signature_help_first_parameter_witness:
  "map_option activeParameter (provideSignatureHelp ''vec3(1.0, 2.0, '' 16) = Some 0"
proof -
  have "provideSignatureHelp ''vec3(1.0, 2.0, '' 16 \<noteq> None"
    by (simp add: provideSignatureHelp_def match_here_def is_word_def is_space_def lookup_def
        signatures_def)
  then obtain r where found: "provideSignatureHelp ''vec3(1.0, 2.0, '' 16 = Some r"
    by blast
  with signature_help_first_parameter have "activeParameter r = 0"
    by blast
  with found show ?thesis
    by simp
qed

text \<open>
  C3 as the specification states it: on the line \<^verbatim>\<open>mix(a, b,\<close> the active parameter would
  be 2. It is not.
\<close>

theorem signature_help_counterexample:
  "map_option activeParameter (provideSignatureHelp ''mix(a, b,'' 10) \<noteq> Some 2"
  by (simp add: provideSignatureHelp_def functionMatch_mix lookup_def signatures_def
      del: functionMatch.simps)

section \<open>Two Starts that throw\<close>

text \<open>
  C8 as the specification states it has two Starts in a row leave exactly one injected
  script. Importing the document \<^verbatim>\<open>{"vertexShader": 5}\<close> puts a number into the vertex
  buffer; from that state either Start throws at \<^verbatim>\<open>vertexShader.replace\<close>, and the two leave
  no script and the component idle.
\<close>

theorem at_most_one_injected_script_counterexample:
  "reachable (snd (importCode (Some (JSON (JObj [(''vertexShader'', JNum 5)]))) fresh)) \<and>
   shader_scripts (snd (runShader (\<lambda>code h. Some (Hook False))
     (snd (runShader (\<lambda>code h. Some (Hook False))
       (snd (importCode (Some (JSON (JObj [(''vertexShader'', JNum 5)]))) fresh)))))) = [] \<and>
   \<not> isRunning (snd (runShader (\<lambda>code h. Some (Hook False))
     (snd (runShader (\<lambda>code h. Some (Hook False))
       (snd (importCode (Some (JSON (JObj [(''vertexShader'', JNum 5)]))) fresh))))))"
proof -
  let ?s = "snd (importCode (Some (JSON (JObj [(''vertexShader'', JNum 5)]))) fresh)"
  let ?s1 = "snd (runShader (\<lambda>code h. Some (Hook False)) ?s)"
  have reached: "reachable ?s"
    by (rule reachable.import) (rule reachable_fresh)
  have number: "vertexShader ?s = Some (JNum 5)"
    by (simp add: importCode_object member_value_def js_or_def)
  have mounted: "canvasRef ?s \<noteq> None"
    by (simp add: importCode_object fresh_def mount_def)
  from number have no: "\<not> can_start ?s"
    by (simp add: can_start_def is_string_def)
  from mounted have mounted1: "canvasRef ?s1 \<noteq> None"
    by (simp add: runShader_canvasRef del: not_None_eq)
  from no have no1: "\<not> can_start ?s1"
    by (simp add: runShader_can_start)
  from reached have "length (shader_scripts ?s) \<le> 1"
    by (rule reachable_scripts)
  then have "length (shader_scripts ?s1) \<le> 1"
    by (rule runShader_scripts_bound)
  from this mounted1 no1
  have "shader_scripts (snd (runShader (\<lambda>code h. Some (Hook False)) ?s1)) = []"
    by (rule runShader_scripts_failed)
  moreover from mounted1 no1 have "\<not> isRunning (snd (runShader (\<lambda>code h. Some (Hook False)) ?s1))"
    by (simp add: runShader_running del: not_None_eq)
  ultimately show ?thesis
    using reached by simp
qed

end
